theory Spec2Isabelle
  imports Main
begin

section \<open>The JavaScript values the commands compute with\<close>

text \<open>
  The two slash commands \<^verbatim>\<open>/think\<close> and \<^verbatim>\<open>/budget\<close> (thinkCommand.ts,
  budgetCommand.ts) work on one argument string and on one optional number kept in the
  session cell (sessionThinkingState.ts). Their behaviour rests on four built-ins of
  the language: \<^verbatim>\<open>String.prototype.trim\<close>, \<^verbatim>\<open>String.prototype.toLowerCase\<close>,
  \<^verbatim>\<open>parseInt(s, 10)\<close> and \<^verbatim>\<open>Number.prototype.toString\<close>. They are modelled
  here after ECMA-262.

  Strings are \<open>string\<close>: a \<open>char\<close> is one code unit in the range U+0000..U+00FF
  (Latin-1); code units above U+00FF are outside this type.
\<close>

subsection \<open>Strings: trim and toLowerCase\<close>

definition is_white_space :: "char \<Rightarrow> bool" where
  \<comment> \<open>WhiteSpace and LineTerminator of ECMA-262 below U+0100:
      TAB, LF, VT, FF, CR, SP, NBSP.\<close>
  "is_white_space c = (of_char c \<in> {9, 10, 11, 12, 13, 32, 160 :: nat})"

definition trim :: "string \<Rightarrow> string" where
  "trim s = rev (dropWhile is_white_space (rev (dropWhile is_white_space s)))"

definition lower_char :: "char \<Rightarrow> char" where
  \<comment> \<open>The upper-case letters below U+0100 are A..Z and U+00C0..U+00DE without the
      multiplication sign U+00D7; each has its lower-case form 32 places further.\<close>
  "lower_char c =
     (let n = (of_char c :: nat)
      in if (65 \<le> n \<and> n \<le> 90) \<or> (192 \<le> n \<and> n \<le> 222 \<and> n \<noteq> 215)
         then char_of (n + 32) else c)"

definition toLowerCase :: "string \<Rightarrow> string" where
  "toLowerCase s = map lower_char s"

subsection \<open>Numbers\<close>

text \<open>
  A Number is an IEEE double. The program only ever holds integral ones (the results of
  \<^verbatim>\<open>parseInt\<close> and the integer constants of the core package), NaN and the two
  infinities. \<open>Fin i\<close> is the finite Number whose mathematical value is the integer
  \<open>i\<close>. The two zeros are one value \<open>Fin 0\<close>: \<^verbatim>\<open>===\<close>, \<^verbatim>\<open><\<close>, \<^verbatim>\<open>></\<close>,
  \<^verbatim>\<open><=\<close> and the conversion to a string, which are all the program does with a
  Number, do not tell \<^verbatim>\<open>-0\<close> from \<^verbatim>\<open>+0\<close>.
\<close>

datatype number = NaN | Fin int | Infinity | NegInfinity

fun isNaN :: "number \<Rightarrow> bool" where
  "isNaN NaN = True"
| "isNaN _ = False"

fun num_lt :: "number \<Rightarrow> number \<Rightarrow> bool" where
  \<comment> \<open>\<^verbatim>\<open>a < b\<close>; false as soon as one side is NaN.\<close>
  "num_lt NaN _ = False"
| "num_lt _ NaN = False"
| "num_lt (Fin a) (Fin b) = (a < b)"
| "num_lt NegInfinity NegInfinity = False"
| "num_lt NegInfinity _ = True"
| "num_lt _ NegInfinity = False"
| "num_lt Infinity _ = False"
| "num_lt (Fin a) Infinity = True"

definition num_gt :: "number \<Rightarrow> number \<Rightarrow> bool" where
  "num_gt a b = num_lt b a"

fun strict_eq :: "number \<Rightarrow> number \<Rightarrow> bool" where
  \<comment> \<open>\<^verbatim>\<open>a === b\<close> on Numbers: NaN equals nothing.\<close>
  "strict_eq NaN _ = False"
| "strict_eq _ NaN = False"
| "strict_eq a b = (a = b)"

definition num_le :: "number \<Rightarrow> number \<Rightarrow> bool" where
  "num_le a b = (num_lt a b \<or> strict_eq a b)"

subsection \<open>Rounding an integer to a double\<close>

fun bit_length :: "nat \<Rightarrow> nat" where
  "bit_length n = (if n = 0 then 0 else Suc (bit_length (n div 2)))"

declare bit_length.simps [simp del]

definition round_double :: "nat \<Rightarrow> nat" where
  \<comment> \<open>Round to nearest, ties to even, with a significand of 53 bits.\<close>
  "round_double v =
     (if v < 2 ^ 53 then v
      else let e = bit_length v - 53;
               q = v div 2 ^ e;
               r = v mod 2 ^ e;
               q' = (if 2 ^ e < 2 * r \<or> (2 * r = 2 ^ e \<and> odd q) then q + 1 else q)
           in q' * 2 ^ e)"

definition toNumber :: "int \<Rightarrow> number" where
  \<comment> \<open>The Number value for a mathematical integer; a magnitude that rounds to
      \<open>2 ^ 1024\<close> or more is an infinity.\<close>
  "toNumber i =
     (let m = round_double (nat \<bar>i\<bar>)
      in if 2 ^ 1024 \<le> m then (if i < 0 then NegInfinity else Infinity)
         else Fin (if i < 0 then - int m else int m))"

subsection \<open>parseInt(s, 10)\<close>

definition is_digit :: "char \<Rightarrow> bool" where
  "is_digit c = (48 \<le> (of_char c :: nat) \<and> (of_char c :: nat) \<le> 57)"

definition digit_value :: "char \<Rightarrow> nat" where
  "digit_value c = of_char c - 48"

definition digits_value :: "string \<Rightarrow> nat" where
  "digits_value Z = foldl (\<lambda>a c. 10 * a + digit_value c) 0 Z"

definition parseInt :: "string \<Rightarrow> number" where
  \<comment> \<open>ECMA-262 parseInt with radix 10: skip leading white space, read one sign, take the
      longest prefix of decimal digits; no digit gives NaN. The value is rounded to a
      double (exactly; the standard also lets an implementation read the digits after
      the 20th as zeros).\<close>
  "parseInt inputString =
     (let S = dropWhile is_white_space inputString;
          sign = (if S \<noteq> [] \<and> hd S = CHR ''-'' then - 1 else 1 :: int);
          S' = (if S \<noteq> [] \<and> (hd S = CHR ''+'' \<or> hd S = CHR ''-'') then tl S else S);
          Z = takeWhile is_digit S'
      in if Z = [] then NaN else toNumber (sign * int (digits_value Z)))"

subsection \<open>Number.prototype.toString\<close>

definition digit_char :: "nat \<Rightarrow> char" where
  "digit_char d = ''0123456789'' ! d"

fun dec_nat :: "nat \<Rightarrow> string" where
  "dec_nat n = (if n < 10 then [digit_char n] else dec_nat (n div 10) @ [digit_char (n mod 10)])"

declare dec_nat.simps [simp del]

definition dec_int :: "int \<Rightarrow> string" where
  \<comment> \<open>The decimal numeral of an integer: no leading zero, a minus sign when negative.\<close>
  "dec_int i = (if i < 0 then CHR ''-'' # dec_nat (nat (- i)) else dec_nat (nat i))"

definition digits_ok :: "nat \<Rightarrow> nat \<Rightarrow> nat \<Rightarrow> nat \<Rightarrow> bool" where
  \<comment> \<open>\<open>s\<close> has \<open>k\<close> digits and \<open>s * 10 ^ (n - k)\<close> reads back as the double \<open>x\<close>.\<close>
  "digits_ok x n k s =
     (10 ^ (k - 1) \<le> s \<and> s < 10 ^ k \<and> toNumber (int (s * 10 ^ (n - k))) = Fin (int x))"

definition closest_digits :: "nat \<Rightarrow> nat \<Rightarrow> nat \<Rightarrow> nat option" where
  \<comment> \<open>Among the \<open>k\<close>-digit numbers that read back as \<open>x\<close>, the one nearest to \<open>x\<close>
      (the even one of two equally near). Only the two neighbours of
      \<open>x / 10 ^ (n - k)\<close> can be nearest.\<close>
  "closest_digits x n k =
     (let p = 10 ^ (n - k); lo = x div p; hi = lo + 1
      in if digits_ok x n k lo \<and> digits_ok x n k hi
         then (if x - lo * p < hi * p - x then Some lo
               else if hi * p - x < x - lo * p then Some hi
               else if even lo then Some lo else Some hi)
         else if digits_ok x n k lo then Some lo
         else if digits_ok x n k hi then Some hi
         else None)"

definition shortest_digits :: "nat \<Rightarrow> nat \<times> nat \<times> nat" where
  \<comment> \<open>The \<open>(n, k, s)\<close> of Number::toString for a double \<open>x \<ge> 1\<close>: \<open>k\<close> as small as
      possible. A double just below a power of ten can be the reading of that power,
      which has one digit more. The last case is not reached for a double.\<close>
  "shortest_digits x =
     (let n = length (dec_nat x)
      in if toNumber (int (10 ^ n)) = Fin (int x) then (n + 1, 1, 1)
         else case find (\<lambda>k. closest_digits x n k \<noteq> None) [1 ..< n + 1] of
                Some k \<Rightarrow> (n, k, the (closest_digits x n k))
              | None \<Rightarrow> (n, n, x))"

definition nat_toString :: "nat \<Rightarrow> string" where
  \<comment> \<open>Number::toString for an integral double \<open>x \<ge> 1\<close>: plain digits up to 21 places,
      exponent notation beyond.\<close>
  "nat_toString x =
     (case shortest_digits x of (n, k, s) \<Rightarrow>
        if n \<le> 21 then dec_nat s @ replicate (n - k) (CHR ''0'')
        else if k = 1 then dec_nat s @ ''e+'' @ dec_nat (n - 1)
        else hd (dec_nat s) # CHR ''.'' # tl (dec_nat s) @ ''e+'' @ dec_nat (n - 1))"

fun number_toString :: "number \<Rightarrow> string" where
  "number_toString NaN = ''NaN''"
| "number_toString Infinity = ''Infinity''"
| "number_toString NegInfinity = ''-Infinity''"
| "number_toString (Fin i) =
     (if i = 0 then ''0''
      else if i < 0 then CHR ''-'' # nat_toString (nat (- i))
      else nat_toString (nat i))"

declare number_toString.simps [simp del]

section \<open>The session cell and the configuration\<close>

text \<open>
  sessionThinkingState.ts: one private field, \<^verbatim>\<open>number | null\<close>, initially null.
\<close>

record SessionThinkingState =
  activeOverride :: "number option"

definition initial_state :: SessionThinkingState where
  "initial_state = \<lparr>activeOverride = None\<rparr>"

definition setOverride :: "number option \<Rightarrow> SessionThinkingState \<Rightarrow> SessionThinkingState" where
  "setOverride budget st = st\<lparr>activeOverride := budget\<rparr>"

definition getActiveOverride :: "SessionThinkingState \<Rightarrow> number option" where
  "getActiveOverride st = activeOverride st"

definition clearOverride :: "SessionThinkingState \<Rightarrow> SessionThinkingState" where
  "clearOverride st = st\<lparr>activeOverride := None\<rparr>"

definition hasOverride :: "SessionThinkingState \<Rightarrow> bool" where
  "hasOverride st = (activeOverride st \<noteq> None)"

text \<open>
  The commands reach the cell through \<^verbatim>\<open>context.services.config\<close>, whose class is
  not among the three files.
\<close>

record Config =
  sessionThinkingState :: SessionThinkingState

definition setSessionThinkingBudget :: "number option \<Rightarrow> Config \<Rightarrow> Config" where
  \<comment> \<open>Modelled from the spec: \<^verbatim>\<open>Config.setSessionThinkingBudget\<close> is missing; the
      spec has the commands write the session cell through it.\<close>
  "setSessionThinkingBudget budget cfg =
     cfg\<lparr>sessionThinkingState := setOverride budget (sessionThinkingState cfg)\<rparr>"

definition getSessionThinkingBudget :: "Config \<Rightarrow> number option" where
  \<comment> \<open>Modelled from the spec: \<^verbatim>\<open>Config.getSessionThinkingBudget\<close> is missing; the
      spec has the commands read the session cell through it.\<close>
  "getSessionThinkingBudget cfg = getActiveOverride (sessionThinkingState cfg)"

text \<open>
  \<^verbatim>\<open>context.services.config\<close> may be null: every access in the commands is
  \<^verbatim>\<open>config?.m(...)\<close>, which does nothing and yields \<^verbatim>\<open>undefined\<close> then. A read
  that gives null or undefined is \<open>None\<close>; the commands test for both together.
\<close>

record CommandContext =
  config :: "Config option"

definition config_set :: "number \<Rightarrow> CommandContext \<Rightarrow> CommandContext" where
  \<comment> \<open>\<^verbatim>\<open>context.services.config?.setSessionThinkingBudget(b)\<close>\<close>
  "config_set b ctx =
     (case config ctx of
        None \<Rightarrow> ctx
      | Some cfg \<Rightarrow> ctx\<lparr>config := Some (setSessionThinkingBudget (Some b) cfg)\<rparr>)"

definition config_get :: "CommandContext \<Rightarrow> number option" where
  \<comment> \<open>\<^verbatim>\<open>context.services.config?.getSessionThinkingBudget()\<close>\<close>
  "config_get ctx =
     (case config ctx of None \<Rightarrow> None | Some cfg \<Rightarrow> getSessionThinkingBudget cfg)"

text \<open>
  The six constants come from the core package, which is not among the three files:
  they are a parameter of the commands.
\<close>

record core_constants =
  THINKING_BUDGET_LOW :: int
  THINKING_BUDGET_MEDIUM :: int
  THINKING_BUDGET_HIGH :: int
  THINKING_BUDGET_UNLIMITED :: int
  THINKING_BUDGET_OFF :: int
  DEFAULT_THINKING_MODE :: int

definition core :: core_constants where
  \<comment> \<open>Modelled from the spec: the constants of \<^verbatim>\<open>@google/gemini-cli-core\<close> are
      missing. The spec gives -1 for unlimited and 0 for disabled; the token counts of the
      tiers and of the default are those the command descriptions of thinkCommand.ts
      name (2048, 8192, 16384, and 8192 for the default).\<close>
  "core = \<lparr>THINKING_BUDGET_LOW = 2048, THINKING_BUDGET_MEDIUM = 8192,
            THINKING_BUDGET_HIGH = 16384, THINKING_BUDGET_UNLIMITED = - 1,
            THINKING_BUDGET_OFF = 0, DEFAULT_THINKING_MODE = 8192\<rparr>"

section \<open>Messages\<close>

datatype messageType = info | error

text \<open>\<^verbatim>\<open>{ type: 'message', messageType, content }\<close>\<close>

datatype SlashCommandActionReturn = message messageType string

definition createMessage :: "messageType \<Rightarrow> string \<Rightarrow> SlashCommandActionReturn" where
  "createMessage mt content = message mt content"

fun message_type :: "SlashCommandActionReturn \<Rightarrow> messageType" where
  "message_type (message mt c) = mt"

fun message_content :: "SlashCommandActionReturn \<Rightarrow> string" where
  "message_content (message mt c) = c"

definition newline :: string where
  "newline = [CHR 0x0A]"

definition agents_note :: string where
  "agents_note = ''Note: Agents like CodebaseInvestigator use their own thinking budgets for optimal performance.''"

section \<open>thinkCommand.ts\<close>

definition getBudgetLabel :: "core_constants \<Rightarrow> number \<Rightarrow> string" where
  "getBudgetLabel K budget =
     (if strict_eq budget (Fin (THINKING_BUDGET_UNLIMITED K)) then ''UNLIMITED''
      else if strict_eq budget (Fin (THINKING_BUDGET_OFF K)) then ''OFF''
      else if num_le budget (Fin (THINKING_BUDGET_LOW K)) then ''LOW''
      else if num_le budget (Fin (THINKING_BUDGET_MEDIUM K)) then ''MEDIUM''
      else if num_le budget (Fin (THINKING_BUDGET_HIGH K)) then ''HIGH''
      else ''EXTREME'')"

text \<open>
  An action takes the context (and the argument string, for a default action) and
  returns its message together with the context after its writes.
\<close>

definition think_on :: "core_constants \<Rightarrow> CommandContext \<Rightarrow> SlashCommandActionReturn \<times> CommandContext" where
  "think_on K ctx =
     (createMessage info
        (''Extended Thinking enabled (MEDIUM: '' @ number_toString (Fin (DEFAULT_THINKING_MODE K))
           @ '' tokens)'' @ newline @ agents_note),
      config_set (Fin (DEFAULT_THINKING_MODE K)) ctx)"

definition think_off :: "core_constants \<Rightarrow> CommandContext \<Rightarrow> SlashCommandActionReturn \<times> CommandContext" where
  "think_off K ctx =
     (createMessage info ''Extended Thinking disabled'',
      config_set (Fin (THINKING_BUDGET_OFF K)) ctx)"

definition think_low :: "core_constants \<Rightarrow> CommandContext \<Rightarrow> SlashCommandActionReturn \<times> CommandContext" where
  "think_low K ctx =
     (createMessage info
        (''Extended Thinking set to LOW ('' @ number_toString (Fin (THINKING_BUDGET_LOW K))
           @ '' tokens)'' @ newline @ agents_note),
      config_set (Fin (THINKING_BUDGET_LOW K)) ctx)"

definition think_medium :: "core_constants \<Rightarrow> CommandContext \<Rightarrow> SlashCommandActionReturn \<times> CommandContext" where
  "think_medium K ctx =
     (createMessage info
        (''Extended Thinking set to MEDIUM ('' @ number_toString (Fin (THINKING_BUDGET_MEDIUM K))
           @ '' tokens)'' @ newline @ agents_note),
      config_set (Fin (THINKING_BUDGET_MEDIUM K)) ctx)"

definition think_high :: "core_constants \<Rightarrow> CommandContext \<Rightarrow> SlashCommandActionReturn \<times> CommandContext" where
  "think_high K ctx =
     (createMessage info
        (''Extended Thinking set to HIGH ('' @ number_toString (Fin (THINKING_BUDGET_HIGH K))
           @ '' tokens)'' @ newline @ agents_note),
      config_set (Fin (THINKING_BUDGET_HIGH K)) ctx)"

definition think_unlimited :: "core_constants \<Rightarrow> CommandContext \<Rightarrow> SlashCommandActionReturn \<times> CommandContext" where
  "think_unlimited K ctx =
     (createMessage info (''Extended Thinking set to UNLIMITED'' @ newline @ agents_note),
      config_set (Fin (THINKING_BUDGET_UNLIMITED K)) ctx)"

definition think_status :: "core_constants \<Rightarrow> CommandContext \<Rightarrow> SlashCommandActionReturn \<times> CommandContext" where
  "think_status K ctx =
     (case config_get ctx of
        None \<Rightarrow>
          (createMessage info ''Extended Thinking: Using model defaults (MEDIUM: 8192 tokens)'', ctx)
      | Some budget \<Rightarrow>
          if strict_eq budget (Fin (THINKING_BUDGET_UNLIMITED K))
          then (createMessage info ''Extended Thinking: UNLIMITED'', ctx)
          else if strict_eq budget (Fin (THINKING_BUDGET_OFF K))
          then (createMessage info ''Extended Thinking: DISABLED'', ctx)
          else (createMessage info
                  (''Extended Thinking: '' @ number_toString budget @ '' tokens (''
                     @ getBudgetLabel K budget @ '')''), ctx))"

definition think_usage :: string where
  "think_usage = ''Usage: /think [on|off|low|medium|high|unlimited|<number>|status]''"

definition under_range_message :: string where
  "under_range_message = ''Budget must be -1 (unlimited), 0 (disabled), or a positive number''"

definition upper_bound_message :: string where
  "upper_bound_message = ''Budget must be 32768 tokens or less (or -1 for unlimited)''"

definition think_action :: "core_constants \<Rightarrow> string \<Rightarrow> CommandContext \<Rightarrow> SlashCommandActionReturn \<times> CommandContext" where
  \<comment> \<open>The default action of \<^verbatim>\<open>/think\<close> (no subcommand).\<close>
  "think_action K args ctx =
     (let trimmedArgs = toLowerCase (trim args);
          numericBudget = parseInt trimmedArgs
      in if \<not> isNaN numericBudget \<and> trimmedArgs = number_toString numericBudget then
           if num_lt numericBudget (Fin (- 1)) then (createMessage error under_range_message, ctx)
           else if num_gt numericBudget (Fin 32768) then (createMessage error upper_bound_message, ctx)
           else
             (if strict_eq numericBudget (Fin (THINKING_BUDGET_UNLIMITED K))
              then createMessage info ''Extended Thinking set to UNLIMITED''
              else if strict_eq numericBudget (Fin (THINKING_BUDGET_OFF K))
              then createMessage info ''Extended Thinking disabled''
              else createMessage info
                     (''Extended Thinking set to '' @ number_toString numericBudget @ '' tokens (''
                        @ getBudgetLabel K numericBudget @ '')''),
              config_set numericBudget ctx)
         else if trimmedArgs = [] then
           (case config_get ctx of
              None \<Rightarrow>
                (createMessage info ''Extended Thinking disabled'',
                 config_set (Fin (THINKING_BUDGET_OFF K)) ctx)
            | Some current \<Rightarrow>
                if num_gt current (Fin (THINKING_BUDGET_OFF K))
                then (createMessage info ''Extended Thinking disabled'',
                      config_set (Fin (THINKING_BUDGET_OFF K)) ctx)
                else (createMessage info
                        (''Extended Thinking enabled (MEDIUM: ''
                           @ number_toString (Fin (DEFAULT_THINKING_MODE K)) @ '' tokens)''),
                      config_set (Fin (DEFAULT_THINKING_MODE K)) ctx))
         else (createMessage error think_usage, ctx))"

section \<open>budgetCommand.ts\<close>

definition budget_hint :: string where
  "budget_hint = newline @ newline @ ''Use /stats to see token usage for this session.''"

definition budget_not_a_number :: string where
  "budget_not_a_number =
     ''Budget must be a number, \"unlimited\", \"off\", or \"disabled\".'' @ newline
     @ ''Example: /budget 4096'' @ newline
     @ ''Use /think for preset levels (low/medium/high).''"

definition budget_action :: "core_constants \<Rightarrow> string \<Rightarrow> CommandContext \<Rightarrow> SlashCommandActionReturn \<times> CommandContext" where
  "budget_action K args ctx =
     (let trimmedArgs = toLowerCase (trim args)
      in if trimmedArgs = [] then
           (createMessage info
              (''Thinking Budget: ''
               @ (case config_get ctx of
                    None \<Rightarrow> ''Default ('' @ number_toString (Fin (DEFAULT_THINKING_MODE K)) @ '' tokens)''
                  | Some current \<Rightarrow>
                      if strict_eq current (Fin (THINKING_BUDGET_UNLIMITED K)) then ''Unlimited''
                      else if strict_eq current (Fin (THINKING_BUDGET_OFF K)) then ''Disabled (0 tokens)''
                      else number_toString current @ '' tokens'')
               @ budget_hint), ctx)
         else if trimmedArgs = ''unlimited'' \<or> trimmedArgs = ''max'' then
           (createMessage info
              (''Thinking budget set to unlimited'' @ newline
               @ ''Note: This may increase latency and API costs.''),
            config_set (Fin (THINKING_BUDGET_UNLIMITED K)) ctx)
         else if trimmedArgs = ''off'' \<or> trimmedArgs = ''disabled'' then
           (createMessage info ''Thinking budget disabled'',
            config_set (Fin (THINKING_BUDGET_OFF K)) ctx)
         else
           let numericBudget = parseInt trimmedArgs
           in if isNaN numericBudget then (createMessage error budget_not_a_number, ctx)
              else if num_lt numericBudget (Fin (- 1)) then (createMessage error under_range_message, ctx)
              else if num_gt numericBudget (Fin 32768) then (createMessage error upper_bound_message, ctx)
              else
                (createMessage info
                   (''Thinking budget set to ''
                    @ (if strict_eq numericBudget (Fin (THINKING_BUDGET_UNLIMITED K)) then ''unlimited''
                       else if strict_eq numericBudget (Fin (THINKING_BUDGET_OFF K)) then ''disabled''
                       else number_toString numericBudget @ '' tokens'')),
                 config_set numericBudget ctx))"

section \<open>Sessions\<close>

text \<open>
  One invocation of either command, as the dispatcher hands it to an action: a
  subcommand of \<^verbatim>\<open>/think\<close>, its default action with the argument string, or
  \<^verbatim>\<open>/budget\<close> with the argument string.
\<close>

datatype invocation =
    ThinkOn | ThinkOff | ThinkLow | ThinkMedium | ThinkHigh | ThinkUnlimited | ThinkStatus
  | Think string
  | Budget string

fun invoke :: "core_constants \<Rightarrow> invocation \<Rightarrow> CommandContext \<Rightarrow> SlashCommandActionReturn \<times> CommandContext" where
  "invoke K ThinkOn ctx = think_on K ctx"
| "invoke K ThinkOff ctx = think_off K ctx"
| "invoke K ThinkLow ctx = think_low K ctx"
| "invoke K ThinkMedium ctx = think_medium K ctx"
| "invoke K ThinkHigh ctx = think_high K ctx"
| "invoke K ThinkUnlimited ctx = think_unlimited K ctx"
| "invoke K ThinkStatus ctx = think_status K ctx"
| "invoke K (Think args) ctx = think_action K args ctx"
| "invoke K (Budget args) ctx = budget_action K args ctx"

fun run :: "core_constants \<Rightarrow> invocation list \<Rightarrow> CommandContext \<Rightarrow> CommandContext" where
  "run K [] ctx = ctx"
| "run K (i # is) ctx = run K is (snd (invoke K i ctx))"

definition session_start :: CommandContext where
  \<comment> \<open>A configuration whose session cell is fresh.\<close>
  "session_start = \<lparr>config = Some \<lparr>sessionThinkingState = initial_state\<rparr>\<rparr>"

fun valid_budget :: "number option \<Rightarrow> bool" where
  \<comment> \<open>Absent, -1, 0, or a positive integer up to 32768.\<close>
  "valid_budget None = True"
| "valid_budget (Some (Fin i)) = (i = - 1 \<or> i = 0 \<or> (0 < i \<and> i \<le> 32768))"
| "valid_budget (Some _) = False"

section \<open>Decimal numerals\<close>

text \<open>
  The decimal numeral of an integer has no white space and no upper-case letter, and
  \<^verbatim>\<open>parseInt\<close> reads it back as the double nearest to the integer.
\<close>

lemma digit_cases: "d < 10 \<Longrightarrow> d \<in> {0, 1, 2, 3, 4, 5, 6, 7, 8, 9 :: nat}"
  by auto

lemma is_digit_digit_char: "d < 10 \<Longrightarrow> is_digit (digit_char d)"
  by (drule digit_cases) (auto simp: digit_char_def is_digit_def)

lemma digit_value_digit_char: "d < 10 \<Longrightarrow> digit_value (digit_char d) = d"
  by (drule digit_cases) (auto simp: digit_char_def digit_value_def)

lemma is_digit_not_white: "is_digit c \<Longrightarrow> \<not> is_white_space c"
  by (auto simp: is_digit_def is_white_space_def)

lemma is_digit_lower: "is_digit c \<Longrightarrow> lower_char c = c"
  by (auto simp: is_digit_def lower_char_def)

lemma is_digit_not_sign: "is_digit c \<Longrightarrow> c \<noteq> CHR ''-'' \<and> c \<noteq> CHR ''+''"
  by (auto simp: is_digit_def)

lemma minus_not_white: "\<not> is_white_space (CHR ''-'')"
  by (simp add: is_white_space_def)

lemma minus_lower: "lower_char (CHR ''-'') = CHR ''-''"
  by (simp add: lower_char_def)

lemma dec_nat_digits: "\<forall>c \<in> set (dec_nat n). is_digit c"
proof (induction n rule: dec_nat.induct)
  case (1 n)
  show ?case
  proof (cases "n < 10")
    case True
    then show ?thesis by (simp add: dec_nat.simps [of n] is_digit_digit_char)
  next
    case False
    with 1 show ?thesis by (simp add: dec_nat.simps [of n] is_digit_digit_char)
  qed
qed

lemma dec_nat_not_Nil: "dec_nat n \<noteq> []"
  by (simp add: dec_nat.simps [of n])

lemma digits_value_snoc: "digits_value (xs @ [c]) = 10 * digits_value xs + digit_value c"
  by (simp add: digits_value_def)

lemma digits_value_dec_nat: "digits_value (dec_nat n) = n"
proof (induction n rule: dec_nat.induct)
  case (1 n)
  show ?case
  proof (cases "n < 10")
    case True
    then show ?thesis
      by (simp add: dec_nat.simps [of n] digits_value_def digit_value_digit_char)
  next
    case False
    with 1 have "digits_value (dec_nat (n div 10)) = n div 10" by simp
    with False show ?thesis
      by (simp add: dec_nat.simps [of n] digits_value_snoc digit_value_digit_char)
  qed
qed

lemma dropWhile_none: "\<forall>c \<in> set s. \<not> P c \<Longrightarrow> dropWhile P s = s"
  by (cases s) auto

lemma takeWhile_all: "\<forall>c \<in> set s. P c \<Longrightarrow> takeWhile P s = s"
  by (induction s) auto

lemma trim_no_white: "\<forall>c \<in> set s. \<not> is_white_space c \<Longrightarrow> trim s = s"
  by (simp add: trim_def dropWhile_none)

lemma dec_int_no_white: "\<forall>c \<in> set (dec_int i). \<not> is_white_space c"
  using dec_nat_digits by (auto simp: dec_int_def minus_not_white is_digit_not_white)

lemma trim_dec_int: "trim (dec_int i) = dec_int i"
  by (rule trim_no_white) (rule dec_int_no_white)

lemma toLowerCase_dec_int: "toLowerCase (dec_int i) = dec_int i"
proof -
  have "\<forall>c \<in> set (dec_int i). lower_char c = c"
    using dec_nat_digits by (auto simp: dec_int_def minus_lower is_digit_lower)
  then show ?thesis by (simp add: toLowerCase_def map_idI)
qed

lemma parseInt_dec_int: "parseInt (dec_int i) = toNumber i"
proof (cases "i < 0")
  case True
  let ?ds = "dec_nat (nat (- i))"
  have tw: "takeWhile is_digit ?ds = ?ds"
    by (rule takeWhile_all) (rule dec_nat_digits)
  from True show ?thesis
    by (simp add: parseInt_def dec_int_def minus_not_white tw dec_nat_not_Nil digits_value_dec_nat)
next
  case False
  let ?ds = "dec_nat (nat i)"
  have tw: "takeWhile is_digit ?ds = ?ds"
    by (rule takeWhile_all) (rule dec_nat_digits)
  have dw: "dropWhile is_white_space ?ds = ?ds"
    by (rule dropWhile_none) (use dec_nat_digits is_digit_not_white in blast)
  have "is_digit (hd ?ds)"
    using dec_nat_digits [of "nat i"] dec_nat_not_Nil [of "nat i"] by simp
  then have hd: "hd ?ds \<noteq> CHR ''-''" "hd ?ds \<noteq> CHR ''+''"
    using is_digit_not_sign by blast+
  from False show ?thesis
    by (simp add: parseInt_def dec_int_def dw hd tw dec_nat_not_Nil digits_value_dec_nat)
qed

section \<open>Doubles\<close>

text \<open>
  Below \<open>2 ^ 53\<close> every integer is a double; from \<open>2 ^ 53\<close> on rounding may move
  an integer, but never below \<open>2 ^ 53\<close>.
\<close>

lemma bit_length_bounds: "0 < n \<Longrightarrow> 2 ^ (bit_length n - 1) \<le> n \<and> n < 2 ^ bit_length n"
proof (induction n rule: bit_length.induct)
  case (1 n)
  show ?case
  proof (cases "n div 2 = 0")
    case True
    with 1 have "n = 1" by (simp add: div_eq_0_iff)
    then show ?thesis by (simp add: bit_length.simps)
  next
    case False
    with 1 have IH: "2 ^ (bit_length (n div 2) - 1) \<le> n div 2" "n div 2 < 2 ^ bit_length (n div 2)"
      by simp_all
    have pos: "0 < bit_length (n div 2)"
      using False by (simp add: bit_length.simps [of "n div 2"])
    have bl: "bit_length n = Suc (bit_length (n div 2))"
      using 1 by (simp add: bit_length.simps [of n])
    have "(2::nat) ^ bit_length (n div 2) = 2 * 2 ^ (bit_length (n div 2) - 1)"
      using pos by (cases "bit_length (n div 2)") simp_all
    with IH(1) have lo: "2 ^ bit_length (n div 2) \<le> n" by simp
    from IH(2) have hi: "n < 2 * 2 ^ bit_length (n div 2)" by simp
    from lo hi bl show ?thesis by simp
  qed
qed

lemma round_double_small: "v < 2 ^ 53 \<Longrightarrow> round_double v = v"
  by (simp add: round_double_def)

lemma round_double_large:
  assumes "2 ^ 53 \<le> v"
  shows "2 ^ 53 \<le> round_double v"
proof -
  define e where "e = bit_length v - 53"
  define q where "q = v div 2 ^ e"
  define q' where "q' = (if 2 ^ e < 2 * (v mod 2 ^ e) \<or> (2 * (v mod 2 ^ e) = 2 ^ e \<and> odd q) then q + 1 else q)"
  have v0: "0 < v" using assms by (simp add: less_le_trans [of 0 "2 ^ 53"])
  from bit_length_bounds [OF v0] have b: "2 ^ (bit_length v - 1) \<le> v" "v < 2 ^ bit_length v"
    by simp_all
  have "(2::nat) ^ 53 < 2 ^ bit_length v" using assms b(2) by simp
  then have bl: "53 < bit_length v" by (simp only: power_strict_increasing_iff)
  then have eq: "bit_length v - 1 = 52 + e" by (simp add: e_def)
  from b(1) have "2 ^ (52 + e) \<le> v" unfolding eq .
  then have "2 ^ 52 * 2 ^ e \<le> v" by (simp add: power_add)
  then have "2 ^ 52 \<le> q" unfolding q_def by (simp add: less_eq_div_iff_mult_less_eq)
  moreover have "q \<le> q'" by (simp add: q'_def)
  ultimately have q': "2 ^ 52 \<le> q'" by simp
  have "1 \<le> e" using bl by (simp add: e_def)
  then have "(2::nat) ^ 1 \<le> 2 ^ e" by (simp only: power_increasing_iff)
  then have "(2::nat) ^ 52 * 2 \<le> q' * 2 ^ e" using q' by (intro mult_le_mono) simp_all
  moreover have "round_double v = q' * 2 ^ e"
    using assms by (simp add: round_double_def Let_def e_def q_def q'_def)
  ultimately show ?thesis by simp
qed

lemma toNumber_small: "\<bar>i\<bar> < 2 ^ 53 \<Longrightarrow> toNumber i = Fin i"
proof -
  assume a: "\<bar>i\<bar> < 2 ^ 53"
  then have s: "nat \<bar>i\<bar> < 2 ^ 53" by simp
  then have r: "round_double (nat \<bar>i\<bar>) = nat \<bar>i\<bar>" by (rule round_double_small)
  have "(2::nat) ^ 53 < 2 ^ 1024" by (simp only: power_strict_increasing_iff)
  with s have "\<not> 2 ^ 1024 \<le> nat \<bar>i\<bar>" by (simp only: not_le less_trans)
  then show ?thesis unfolding toNumber_def Let_def r by (simp only: if_False) simp
qed

lemma toNumber_large_pos:
  assumes "2 ^ 53 \<le> i"
  shows "toNumber i = Infinity \<or> (\<exists>m. toNumber i = Fin m \<and> 2 ^ 53 \<le> m)"
proof -
  have "2 ^ 53 \<le> nat \<bar>i\<bar>" using assms by (simp add: le_nat_iff)
  then have "2 ^ 53 \<le> round_double (nat \<bar>i\<bar>)" by (rule round_double_large)
  then have "int (2 ^ 53) \<le> int (round_double (nat \<bar>i\<bar>))" by (simp only: of_nat_le_iff)
  then have m: "(2::int) ^ 53 \<le> int (round_double (nat \<bar>i\<bar>))" by simp
  have pos: "\<not> i < 0" using assms by simp
  show ?thesis
  proof (cases "2 ^ 1024 \<le> round_double (nat \<bar>i\<bar>)")
    case True
    with pos show ?thesis unfolding toNumber_def Let_def by (simp only: if_True if_False) simp
  next
    case False
    with pos m show ?thesis unfolding toNumber_def Let_def by (simp only: if_True if_False) simp
  qed
qed

lemma toNumber_large_neg:
  assumes "i \<le> - (2 ^ 53)"
  shows "toNumber i = NegInfinity \<or> (\<exists>m. toNumber i = Fin m \<and> m \<le> - (2 ^ 53))"
proof -
  have neg: "i < 0" using assms by simp
  have "2 ^ 53 \<le> nat \<bar>i\<bar>" using assms by (simp add: le_nat_iff)
  then have "2 ^ 53 \<le> round_double (nat \<bar>i\<bar>)" by (rule round_double_large)
  then have "int (2 ^ 53) \<le> int (round_double (nat \<bar>i\<bar>))" by (simp only: of_nat_le_iff)
  then have m: "(2::int) ^ 53 \<le> int (round_double (nat \<bar>i\<bar>))" by simp
  show ?thesis
  proof (cases "2 ^ 1024 \<le> round_double (nat \<bar>i\<bar>)")
    case True
    with neg show ?thesis unfolding toNumber_def Let_def by (simp only: if_True if_False) simp
  next
    case False
    with neg m show ?thesis unfolding toNumber_def Let_def by (simp only: if_True if_False) simp
  qed
qed

section \<open>The string of a safe integer\<close>

text \<open>
  For a double of magnitude below \<open>2 ^ 53\<close> the shortest digits that read back are
  the digits of the integer itself, so \<^verbatim>\<open>toString\<close> gives its decimal numeral.
\<close>

lemma dec_nat_upper: "x < 10 ^ length (dec_nat x)"
proof (induction x rule: dec_nat.induct)
  case (1 n)
  show ?case
  proof (cases "n < 10")
    case True
    then show ?thesis by (simp add: dec_nat.simps [of n])
  next
    case False
    with 1 have "n div 10 < 10 ^ length (dec_nat (n div 10))" by simp
    then have "n < 10 * 10 ^ length (dec_nat (n div 10))" by simp
    with False show ?thesis by (simp add: dec_nat.simps [of n])
  qed
qed

lemma dec_nat_lower: "0 < x \<Longrightarrow> 10 ^ (length (dec_nat x) - 1) \<le> x"
proof (induction x rule: dec_nat.induct)
  case (1 n)
  show ?case
  proof (cases "n < 10")
    case True
    with 1 show ?thesis by (simp add: dec_nat.simps [of n])
  next
    case False
    then have "0 < n div 10" by simp
    with 1 False have IH: "10 ^ (length (dec_nat (n div 10)) - 1) \<le> n div 10" by simp
    have len: "0 < length (dec_nat (n div 10))" by (simp add: dec_nat_not_Nil)
    have "(10::nat) ^ length (dec_nat (n div 10)) = 10 * 10 ^ (length (dec_nat (n div 10)) - 1)"
      using len by (cases "length (dec_nat (n div 10))") simp_all
    with IH have "10 ^ length (dec_nat (n div 10)) \<le> n" by simp
    with False show ?thesis by (simp add: dec_nat.simps [of n])
  qed
qed

lemma dec_nat_times_10: "0 < s \<Longrightarrow> dec_nat (s * 10) = dec_nat s @ ''0''"
  by (simp add: dec_nat.simps [of "s * 10"] digit_char_def)

lemma dec_nat_shift: "0 < s \<Longrightarrow> dec_nat (s * 10 ^ j) = dec_nat s @ replicate j (CHR ''0'')"
proof (induction j)
  case 0
  then show ?case by simp
next
  case (Suc j)
  have "s * 10 ^ Suc j = (s * 10 ^ j) * 10" by simp
  then have "dec_nat (s * 10 ^ Suc j) = dec_nat ((s * 10 ^ j) * 10)" by (rule arg_cong)
  also have "\<dots> = dec_nat (s * 10 ^ j) @ ''0''" using Suc.prems by (intro dec_nat_times_10) simp
  also have "\<dots> = dec_nat s @ replicate (Suc j) (CHR ''0'')"
    using Suc by (simp add: replicate_append_same)
  finally show ?case .
qed

lemma toNumber_eq_small:
  assumes "toNumber (int v) = Fin (int x)" and "x < 2 ^ 53"
  shows "v = x"
proof (cases "v < 2 ^ 53")
  case True
  then have "\<bar>int v\<bar> < 2 ^ 53" by (simp add: of_nat_less_iff [of v "2 ^ 53", where 'a = int, simplified])
  then have "toNumber (int v) = Fin (int v)" by (rule toNumber_small)
  with assms show ?thesis by simp
next
  case False
  then have "int (2 ^ 53) \<le> int v" by (simp only: of_nat_le_iff not_less)
  then have "2 ^ 53 \<le> int v" by simp
  from toNumber_large_pos [OF this] assms(1) have "2 ^ 53 \<le> int x" by auto
  then have "int (2 ^ 53) \<le> int x" by simp
  then have "2 ^ 53 \<le> x" by (simp only: of_nat_le_iff)
  with assms(2) show ?thesis by simp
qed

lemma closest_digits_ok: "closest_digits x n k = Some s \<Longrightarrow> digits_ok x n k s"
  by (auto simp: closest_digits_def Let_def split: if_splits)

lemma nat_toString_small:
  assumes "0 < x" and "x < 2 ^ 53"
  shows "nat_toString x = dec_nat x"
proof -
  define n where "n = length (dec_nat x)"
  have lo: "10 ^ (n - 1) \<le> x" and hi: "x < 10 ^ n"
    using dec_nat_lower [OF assms(1)] dec_nat_upper [of x] by (simp_all add: n_def)
  have n1: "1 \<le> n" by (simp add: n_def dec_nat_not_Nil Suc_leI)
  have "(10::nat) ^ (n - 1) < 10 ^ 16" using lo assms(2) by simp
  then have "n - 1 < 16" by (simp only: power_strict_increasing_iff)
  then have n21: "n \<le> 21" by simp
  have no_pow: "toNumber (int (10 ^ n)) \<noteq> Fin (int x)"
    using toNumber_eq_small [of "10 ^ n" x] assms(2) hi by auto
  have self: "digits_ok x n n x"
    using lo hi assms(2) by (simp add: digits_ok_def toNumber_small)
  have "closest_digits x n n \<noteq> None"
    using self by (auto simp: closest_digits_def Let_def)
  moreover have "n \<in> set [1 ..< n + 1]" using n1 by simp
  ultimately have "find (\<lambda>k. closest_digits x n k \<noteq> None) [1 ..< n + 1] \<noteq> None"
    by (auto simp: find_None_iff)
  then obtain k where k: "find (\<lambda>k. closest_digits x n k \<noteq> None) [1 ..< n + 1] = Some k"
    by auto
  then have "closest_digits x n k \<noteq> None" by (auto simp: find_Some_iff)
  then obtain s where s: "closest_digits x n k = Some s" by auto
  then have ok: "digits_ok x n k s" by (rule closest_digits_ok)
  then have "toNumber (int (s * 10 ^ (n - k))) = Fin (int x)" by (simp add: digits_ok_def)
  then have val: "s * 10 ^ (n - k) = x" using assms(2) by (rule toNumber_eq_small)
  have "0 < s" using val assms(1) by (cases "s = 0") simp_all
  then have "dec_nat s @ replicate (n - k) (CHR ''0'') = dec_nat x"
    using dec_nat_shift [of s "n - k"] val by simp
  moreover have "shortest_digits x = (n, k, s)"
    using no_pow k s by (simp add: shortest_digits_def Let_def n_def [symmetric])
  ultimately show ?thesis using n21 by (simp add: nat_toString_def)
qed

lemma number_toString_small: "\<bar>i\<bar> < 2 ^ 53 \<Longrightarrow> number_toString (Fin i) = dec_int i"
proof -
  assume a: "\<bar>i\<bar> < 2 ^ 53"
  consider "i = 0" | "i < 0" | "0 < i" by linarith
  then show ?thesis
  proof cases
    case 1
    then show ?thesis by (simp add: number_toString.simps dec_int_def dec_nat.simps [of 0] digit_char_def)
  next
    case 2
    with a have "0 < nat (- i)" "nat (- i) < 2 ^ 53" by simp_all
    then have "nat_toString (nat (- i)) = dec_nat (nat (- i))" by (rule nat_toString_small)
    with 2 show ?thesis by (simp add: number_toString.simps dec_int_def)
  next
    case 3
    with a have "0 < nat i" "nat i < 2 ^ 53" by simp_all
    then have "nat_toString (nat i) = dec_nat (nat i)" by (rule nat_toString_small)
    with 3 show ?thesis by (simp add: number_toString.simps dec_int_def)
  qed
qed

section \<open>The commands on a decimal numeral\<close>

text \<open>
  Given the decimal numeral of a safe integer, both commands reach their range checks
  with exactly that integer.
\<close>

lemma dec_int_hd: "dec_int i \<noteq> [] \<and> (is_digit (hd (dec_int i)) \<or> hd (dec_int i) = CHR ''-'')"
  using dec_nat_digits [of "nat i"] dec_nat_not_Nil [of "nat i"]
  by (simp add: dec_int_def)

lemma dec_int_not_keyword:
  "dec_int i \<noteq> ''unlimited''" "dec_int i \<noteq> ''max''" "dec_int i \<noteq> ''off''" "dec_int i \<noteq> ''disabled''"
  using dec_int_hd [of i] by (auto simp: is_digit_def)

lemma arg_dec_int: "toLowerCase (trim (dec_int n)) = dec_int n"
  by (simp add: trim_dec_int toLowerCase_dec_int)

lemma config_get_set: "config ctx \<noteq> None \<Longrightarrow> config_get (config_set b ctx) = Some b"
  by (auto simp: config_get_def config_set_def getSessionThinkingBudget_def
      setSessionThinkingBudget_def getActiveOverride_def setOverride_def)

lemma toNumber_safe: "\<bar>i\<bar> < 9007199254740992 \<Longrightarrow> toNumber i = Fin i"
  using toNumber_small [of i] by simp

lemma number_toString_safe: "\<bar>i\<bar> < 9007199254740992 \<Longrightarrow> number_toString (Fin i) = dec_int i"
  using number_toString_small [of i] by simp

lemma think_action_numeric:
  assumes "\<bar>n\<bar> < 9007199254740992"
  shows "think_action K (dec_int n) ctx =
     (if n < - 1 then (createMessage error under_range_message, ctx)
      else if 32768 < n then (createMessage error upper_bound_message, ctx)
      else
        (if strict_eq (Fin n) (Fin (THINKING_BUDGET_UNLIMITED K))
         then createMessage info ''Extended Thinking set to UNLIMITED''
         else if strict_eq (Fin n) (Fin (THINKING_BUDGET_OFF K))
         then createMessage info ''Extended Thinking disabled''
         else createMessage info
                (''Extended Thinking set to '' @ dec_int n @ '' tokens (''
                   @ getBudgetLabel K (Fin n) @ '')''),
         config_set (Fin n) ctx))"
proof -
  have p: "parseInt (dec_int n) = Fin n"
    using assms by (simp only: parseInt_dec_int toNumber_safe)
  have s: "number_toString (Fin n) = dec_int n"
    using assms by (rule number_toString_safe)
  show ?thesis
    unfolding think_action_def Let_def arg_dec_int p s
    by (simp add: num_gt_def)
qed

lemma budget_action_numeric:
  assumes "\<bar>n\<bar> < 9007199254740992"
  shows "budget_action K (dec_int n) ctx =
     (if n < - 1 then (createMessage error under_range_message, ctx)
      else if 32768 < n then (createMessage error upper_bound_message, ctx)
      else
        (createMessage info
           (''Thinking budget set to ''
            @ (if strict_eq (Fin n) (Fin (THINKING_BUDGET_UNLIMITED K)) then ''unlimited''
               else if strict_eq (Fin n) (Fin (THINKING_BUDGET_OFF K)) then ''disabled''
               else dec_int n @ '' tokens'')),
         config_set (Fin n) ctx))"
proof -
  have p: "parseInt (dec_int n) = Fin n"
    using assms by (simp only: parseInt_dec_int toNumber_safe)
  have s: "number_toString (Fin n) = dec_int n"
    using assms by (rule number_toString_safe)
  have k: "dec_int n \<noteq> []" using dec_int_hd [of n] by simp
  show ?thesis
    unfolding budget_action_def Let_def arg_dec_int p s
    using k dec_int_not_keyword [of n] by (simp add: num_gt_def)
qed

section \<open>The claims\<close>

text \<open>
  C1. For every integer \<open>n\<close> from -1 to 32768, the default action of \<^verbatim>\<open>/think\<close>
  and the action of \<^verbatim>\<open>/budget\<close>, given the decimal numeral of \<open>n\<close>, store
  \<open>n\<close>: reading the session budget through the configuration afterwards gives
  exactly \<open>n\<close>. The configuration has to be there.
\<close>

theorem set_then_read_round_trip:
  assumes "- 1 \<le> n" and "n \<le> 32768" and "config ctx \<noteq> None"
  shows "config_get (snd (think_action K (dec_int n) ctx)) = Some (Fin n)
       \<and> config_get (snd (budget_action K (dec_int n) ctx)) = Some (Fin n)"
proof -
  have safe: "\<bar>n\<bar> < 9007199254740992" using assms(1,2) by simp
  have "snd (think_action K (dec_int n) ctx) = config_set (Fin n) ctx"
    using assms(1,2) by (simp add: think_action_numeric [OF safe])
  moreover have "snd (budget_action K (dec_int n) ctx) = config_set (Fin n) ctx"
    using assms(1,2) by (simp add: budget_action_numeric [OF safe])
  ultimately show ?thesis using assms(3) by (simp add: config_get_set)
qed

lemma dec_int_4096: "dec_int 4096 = ''4096''"
  by (simp add: dec_int_def dec_nat.simps digit_char_def)

theorem set_then_read_round_trip_witness:
  "(- 1 :: int) \<le> 4096 \<and> (4096 :: int) \<le> 32768 \<and> config session_start \<noteq> None
   \<and> config_get (snd (think_action core ''4096'' session_start)) = Some (Fin 4096)
   \<and> config_get (snd (budget_action core ''4096'' session_start)) = Some (Fin 4096)"
  using set_then_read_round_trip [of 4096 session_start core]
  by (simp add: dec_int_4096 session_start_def)

lemma toNumber_beyond_pos:
  "9007199254740992 \<le> i \<Longrightarrow> toNumber i = Infinity \<or> (\<exists>m. toNumber i = Fin m \<and> 9007199254740992 \<le> m)"
  using toNumber_large_pos [of i] by simp

lemma toNumber_beyond_neg:
  "i \<le> - 9007199254740992 \<Longrightarrow> toNumber i = NegInfinity \<or> (\<exists>m. toNumber i = Fin m \<and> m \<le> - 9007199254740992)"
  using toNumber_large_neg [of i] by simp

lemma toNumber_under_range:
  assumes "n < - 1"
  shows "\<not> isNaN (toNumber n) \<and> num_lt (toNumber n) (Fin (- 1))"
proof (cases "\<bar>n\<bar> < 9007199254740992")
  case True
  with assms show ?thesis by (simp add: toNumber_safe)
next
  case False
  with assms have "n \<le> - 9007199254740992" by simp
  from toNumber_beyond_neg [OF this] show ?thesis by auto
qed

lemma toNumber_over_range:
  assumes "32768 < n"
  shows "\<not> isNaN (toNumber n) \<and> \<not> num_lt (toNumber n) (Fin (- 1)) \<and> num_gt (toNumber n) (Fin 32768)"
proof (cases "\<bar>n\<bar> < 9007199254740992")
  case True
  with assms show ?thesis by (simp add: toNumber_safe num_gt_def)
next
  case False
  with assms have "9007199254740992 \<le> n" by simp
  from toNumber_beyond_pos [OF this] show ?thesis by (auto simp: num_gt_def)
qed

lemma budget_action_out_of_range:
  assumes "n < - 1 \<or> 32768 < n"
  shows "budget_action K (dec_int n) ctx =
     (message error (if n < - 1 then under_range_message else upper_bound_message), ctx)"
proof -
  have k: "dec_int n \<noteq> []" using dec_int_hd [of n] by simp
  from assms show ?thesis
  proof
    assume "n < - 1"
    with toNumber_under_range [of n] k dec_int_not_keyword [of n] show ?thesis
      unfolding budget_action_def Let_def arg_dec_int parseInt_dec_int
      by (simp add: createMessage_def)
  next
    assume "32768 < n"
    with toNumber_over_range [of n] k dec_int_not_keyword [of n] show ?thesis
      unfolding budget_action_def Let_def arg_dec_int parseInt_dec_int
      by (simp add: createMessage_def)
  qed
qed

lemma think_action_out_of_range:
  assumes "n < - 1 \<or> 32768 < n"
  shows "message_type (fst (think_action K (dec_int n) ctx)) = error
       \<and> snd (think_action K (dec_int n) ctx) = ctx"
proof -
  have k: "dec_int n \<noteq> []" using dec_int_hd [of n] by simp
  from assms show ?thesis
  proof
    assume "n < - 1"
    with toNumber_under_range [of n] k show ?thesis
      unfolding think_action_def Let_def arg_dec_int parseInt_dec_int
      by (simp add: createMessage_def)
  next
    assume "32768 < n"
    with toNumber_over_range [of n] k show ?thesis
      unfolding think_action_def Let_def arg_dec_int parseInt_dec_int
      by (simp add: createMessage_def)
  qed
qed

lemma dec_int_99999: "dec_int 99999 = ''99999''"
  by (simp add: dec_int_def dec_nat.simps digit_char_def)

lemma dec_int_beyond: "dec_int 9007199254740993 = ''9007199254740993''"
  by (simp add: dec_int_def dec_nat.simps digit_char_def)

lemma parseInt_beyond: "parseInt ''9007199254740993'' = Fin 9007199254740992"
proof -
  have "toNumber 9007199254740993 = Fin 9007199254740992"
    by (simp add: toNumber_def round_double_def bit_length.simps)
  then show ?thesis using parseInt_dec_int [of 9007199254740993] by (simp add: dec_int_beyond)
qed

lemma toString_beyond: "number_toString (Fin 9007199254740992) = ''9007199254740992''"
  by (simp add: number_toString.simps nat_toString_def shortest_digits_def closest_digits_def digits_ok_def
      toNumber_def round_double_def bit_length.simps dec_nat.simps digit_char_def)

text \<open>
  C2, as the code has it. For every integer \<open>n\<close> below -1 or above 32768, given as its
  decimal numeral, both commands return an error-typed message and leave the context,
  and with it the stored session budget, as it was. \<^verbatim>\<open>/budget\<close> returns the
  under-range message for \<open>n < -1\<close> and the upper-bound message for \<open>n > 32768\<close>;
  the default action of \<^verbatim>\<open>/think\<close> returns these same messages whenever the
  magnitude of \<open>n\<close> is below \<open>2 ^ 53 = 9007199254740992\<close>.
\<close>

theorem out_of_range_rejected:
  assumes "n < - 1 \<or> 32768 < n"
  shows "budget_action K (dec_int n) ctx =
           (message error (if n < - 1 then under_range_message else upper_bound_message), ctx)
       \<and> message_type (fst (think_action K (dec_int n) ctx)) = error
       \<and> snd (think_action K (dec_int n) ctx) = ctx
       \<and> (\<bar>n\<bar> < 9007199254740992 \<longrightarrow>
            think_action K (dec_int n) ctx =
              (message error (if n < - 1 then under_range_message else upper_bound_message), ctx))"
proof -
  have "think_action K (dec_int n) ctx =
          (message error (if n < - 1 then under_range_message else upper_bound_message), ctx)"
    if "\<bar>n\<bar> < 9007199254740992"
    using assms by (auto simp: think_action_numeric [OF that] createMessage_def)
  with budget_action_out_of_range [OF assms] think_action_out_of_range [OF assms]
  show ?thesis by simp
qed

theorem out_of_range_rejected_witness:
  "((99999 :: int) < - 1 \<or> (32768 :: int) < 99999)
   \<and> budget_action core ''99999'' session_start = (message error upper_bound_message, session_start)
   \<and> think_action core ''99999'' session_start = (message error upper_bound_message, session_start)"
  using out_of_range_rejected [of 99999 core session_start]
  by (simp add: dec_int_99999)

text \<open>
  C2 as stated fails for \<^verbatim>\<open>/think\<close> beyond the safe integers: \<^verbatim>\<open>parseInt\<close> rounds
  \<open>9007199254740993\<close> to the double \<open>9007199254740992\<close>, whose string is not the
  argument, so the numeric branch is skipped and the usage error is returned instead of
  the upper-bound message.
\<close>

theorem think_beyond_safe_integers_counterexample:
  "(32768 :: int) < 9007199254740993
   \<and> dec_int 9007199254740993 = ''9007199254740993''
   \<and> think_action core ''9007199254740993'' session_start = (message error think_usage, session_start)
   \<and> think_usage \<noteq> upper_bound_message"
proof -
  have t: "toLowerCase (trim ''9007199254740993'') = ''9007199254740993''"
    using arg_dec_int [of 9007199254740993] by (simp only: dec_int_beyond)
  have "think_action core ''9007199254740993'' session_start = (message error think_usage, session_start)"
    by (simp add: think_action_def Let_def t parseInt_beyond toString_beyond createMessage_def)
  then show ?thesis
    by (simp add: dec_int_beyond think_usage_def upper_bound_message_def)
qed

lemma dec_int_12: "dec_int 12 = ''12''"
  by (simp add: dec_int_def dec_nat.simps digit_char_def)

lemma arg_12abc: "toLowerCase (trim ''12abc'') = ''12abc''"
  by (simp add: toLowerCase_def trim_def lower_char_def is_white_space_def)

lemma parseInt_12abc: "parseInt ''12abc'' = Fin 12"
  by (simp add: parseInt_def is_white_space_def is_digit_def digits_value_def digit_value_def
      toNumber_safe)

text \<open>
  C3 at the argument \<^verbatim>\<open>12abc\<close>, which is neither a keyword nor a number:
  \<^verbatim>\<open>/budget\<close> reads the digits in front, stores 12 and confirms with an info message,
  where the default action of \<^verbatim>\<open>/think\<close> returns its usage error and stores nothing.
\<close>

theorem budget_accepts_trailing_garbage:
  "budget_action core ''12abc'' session_start =
     (message info ''Thinking budget set to 12 tokens'',
      \<lparr>config = Some \<lparr>sessionThinkingState = \<lparr>activeOverride = Some (Fin 12)\<rparr>\<rparr>\<rparr>)
   \<and> think_action core ''12abc'' session_start = (message error think_usage, session_start)"
proof -
  have s: "number_toString (Fin 12) = ''12''"
    using number_toString_safe [of 12] by (simp add: dec_int_12)
  have "budget_action core ''12abc'' session_start =
     (message info ''Thinking budget set to 12 tokens'',
      \<lparr>config = Some \<lparr>sessionThinkingState = \<lparr>activeOverride = Some (Fin 12)\<rparr>\<rparr>\<rparr>)"
    unfolding budget_action_def Let_def arg_12abc parseInt_12abc s
    by (simp add: createMessage_def num_gt_def core_def config_set_def session_start_def
        setSessionThinkingBudget_def setOverride_def initial_state_def)
  moreover have "think_action core ''12abc'' session_start = (message error think_usage, session_start)"
    unfolding think_action_def Let_def arg_12abc parseInt_12abc s
    by (simp add: createMessage_def)
  ultimately show ?thesis by simp
qed

lemma arg_empty: "toLowerCase (trim []) = []"
  by (simp add: toLowerCase_def trim_def)

lemma parseInt_empty: "parseInt [] = NaN"
  by (simp add: parseInt_def)

lemma think_action_empty:
  "think_action K [] ctx =
     (case config_get ctx of
        None \<Rightarrow>
          (message info ''Extended Thinking disabled'', config_set (Fin (THINKING_BUDGET_OFF K)) ctx)
      | Some current \<Rightarrow>
          if num_gt current (Fin (THINKING_BUDGET_OFF K))
          then (message info ''Extended Thinking disabled'',
                config_set (Fin (THINKING_BUDGET_OFF K)) ctx)
          else (message info
                  (''Extended Thinking enabled (MEDIUM: ''
                     @ number_toString (Fin (DEFAULT_THINKING_MODE K)) @ '' tokens)''),
                config_set (Fin (DEFAULT_THINKING_MODE K)) ctx))"
  unfolding think_action_def Let_def arg_empty parseInt_empty
  by (simp add: createMessage_def split: option.splits)

lemma dec_int_8192: "dec_int 8192 = ''8192''"
  by (simp add: dec_int_def dec_nat.simps digit_char_def)

lemma toString_8192: "number_toString (Fin 8192) = ''8192''"
  using number_toString_safe [of 8192] by (simp add: dec_int_8192)

text \<open>
  C4. With an empty argument the default action of \<^verbatim>\<open>/think\<close> toggles. If the current
  session budget is absent or strictly greater than 0, it writes 0 and returns
  \<^verbatim>\<open>Extended Thinking disabled\<close>; otherwise (the current budget is 0 or -1, or any
  other number not above 0) it writes the default and returns
  \<^verbatim>\<open>Extended Thinking enabled (MEDIUM: {default} tokens)\<close>. With a configuration
  present the written value is the one read back. The constant for "off" is 0.
\<close>

theorem think_toggle:
  assumes "THINKING_BUDGET_OFF K = 0"
  shows "think_action K [] ctx =
     (if (case config_get ctx of None \<Rightarrow> True | Some current \<Rightarrow> num_gt current (Fin 0))
      then (message info ''Extended Thinking disabled'', config_set (Fin 0) ctx)
      else (message info
              (''Extended Thinking enabled (MEDIUM: ''
                 @ number_toString (Fin (DEFAULT_THINKING_MODE K)) @ '' tokens)''),
            config_set (Fin (DEFAULT_THINKING_MODE K)) ctx))
   \<and> (config ctx \<noteq> None \<longrightarrow>
        config_get (snd (think_action K [] ctx)) =
          Some (if (case config_get ctx of None \<Rightarrow> True | Some current \<Rightarrow> num_gt current (Fin 0))
                then Fin 0 else Fin (DEFAULT_THINKING_MODE K)))"
  using assms by (simp add: think_action_empty config_get_set split: option.splits)

theorem think_toggle_witness:
  "THINKING_BUDGET_OFF core = 0
   \<and> think_action core [] session_start =
       (message info ''Extended Thinking disabled'', config_set (Fin 0) session_start)
   \<and> think_action core [] (config_set (Fin 4096) session_start) =
       (message info ''Extended Thinking disabled'', config_set (Fin 0) (config_set (Fin 4096) session_start))
   \<and> think_action core [] (config_set (Fin 0) session_start) =
       (message info ''Extended Thinking enabled (MEDIUM: 8192 tokens)'',
        config_set (Fin 8192) (config_set (Fin 0) session_start))
   \<and> think_action core [] (config_set (Fin (- 1)) session_start) =
       (message info ''Extended Thinking enabled (MEDIUM: 8192 tokens)'',
        config_set (Fin 8192) (config_set (Fin (- 1)) session_start))
   \<and> config_get (snd (think_action core [] (config_set (Fin 0) session_start))) = Some (Fin 8192)"
proof -
  have off: "THINKING_BUDGET_OFF core = 0" and d: "DEFAULT_THINKING_MODE core = 8192"
    by (simp_all add: core_def)
  have c: "config session_start \<noteq> None" "config_get session_start = None"
    by (simp_all add: session_start_def config_get_def getSessionThinkingBudget_def
        getActiveOverride_def initial_state_def)
  have c': "config (config_set b session_start) \<noteq> None" for b
    by (simp add: session_start_def config_set_def)
  show ?thesis
    using think_toggle [OF off, of session_start]
      think_toggle [OF off, of "config_set (Fin 4096) session_start"]
      think_toggle [OF off, of "config_set (Fin 0) session_start"]
      think_toggle [OF off, of "config_set (Fin (- 1)) session_start"]
    by (simp add: off d c c' config_get_set num_gt_def toString_8192)
qed

text \<open>
  C5, as the code has it. With no arguments and no override set, the default action of
  \<^verbatim>\<open>/think\<close> takes the absent budget for "thinking on" and turns it off: it writes
  the "off" constant, which is 0, returns \<^verbatim>\<open>Extended Thinking disabled\<close>, and the
  value read back is 0.
\<close>

theorem think_from_absent_turns_off:
  assumes "THINKING_BUDGET_OFF K = 0" and "config ctx \<noteq> None" and "config_get ctx = None"
  shows "think_action K [] ctx = (message info ''Extended Thinking disabled'', config_set (Fin 0) ctx)
       \<and> config_get (snd (think_action K [] ctx)) = Some (Fin 0)"
  using assms by (simp add: think_action_empty config_get_set)

theorem think_from_absent_turns_off_witness:
  "THINKING_BUDGET_OFF core = 0 \<and> config session_start \<noteq> None \<and> config_get session_start = None
   \<and> think_action core [] session_start =
        (message info ''Extended Thinking disabled'', config_set (Fin 0) session_start)
   \<and> config_get (snd (think_action core [] session_start)) = Some (Fin 0)"
proof -
  have h: "THINKING_BUDGET_OFF core = 0" "config session_start \<noteq> None" "config_get session_start = None"
    by (simp_all add: core_def session_start_def config_get_def getSessionThinkingBudget_def
        getActiveOverride_def initial_state_def)
  from think_from_absent_turns_off [OF h] h show ?thesis by blast
qed

text \<open>
  C5 as stated fails: from the fresh session, where no override is set, \<^verbatim>\<open>/think\<close>
  with no arguments leaves 0 in the cell, not the medium default 8192.
\<close>

theorem think_from_absent_counterexample:
  "config_get session_start = None
   \<and> config_get (snd (think_action core [] session_start)) = Some (Fin 0)
   \<and> config_get (snd (think_action core [] session_start)) \<noteq> Some (Fin (DEFAULT_THINKING_MODE core))"
  by (simp add: think_action_empty core_def session_start_def config_get_def config_set_def
      getSessionThinkingBudget_def setSessionThinkingBudget_def getActiveOverride_def
      setOverride_def initial_state_def)

text \<open>
  C7. With -1 for "unlimited" and 0 for "off", the label of an integer budget \<open>b\<close> is
  UNLIMITED if \<open>b = -1\<close>, OFF if \<open>b = 0\<close>, else LOW if \<open>b\<close> is at most the low
  threshold, else MEDIUM if at most the medium threshold, else HIGH if at most the high
  threshold, else EXTREME. With thresholds \<open>0 < low < medium < high\<close>, a budget exactly
  at a threshold gets the lower tier and one unit above it gets the next tier.
\<close>

theorem getBudgetLabel_classification:
  assumes "THINKING_BUDGET_UNLIMITED K = - 1" and "THINKING_BUDGET_OFF K = 0"
  shows "getBudgetLabel K (Fin b) =
     (if b = - 1 then ''UNLIMITED''
      else if b = 0 then ''OFF''
      else if b \<le> THINKING_BUDGET_LOW K then ''LOW''
      else if b \<le> THINKING_BUDGET_MEDIUM K then ''MEDIUM''
      else if b \<le> THINKING_BUDGET_HIGH K then ''HIGH''
      else ''EXTREME'')
   \<and> (0 < THINKING_BUDGET_LOW K \<and> THINKING_BUDGET_LOW K < THINKING_BUDGET_MEDIUM K
        \<and> THINKING_BUDGET_MEDIUM K < THINKING_BUDGET_HIGH K \<longrightarrow>
        getBudgetLabel K (Fin (THINKING_BUDGET_LOW K)) = ''LOW''
      \<and> getBudgetLabel K (Fin (THINKING_BUDGET_LOW K + 1)) = ''MEDIUM''
      \<and> getBudgetLabel K (Fin (THINKING_BUDGET_MEDIUM K)) = ''MEDIUM''
      \<and> getBudgetLabel K (Fin (THINKING_BUDGET_MEDIUM K + 1)) = ''HIGH''
      \<and> getBudgetLabel K (Fin (THINKING_BUDGET_HIGH K)) = ''HIGH''
      \<and> getBudgetLabel K (Fin (THINKING_BUDGET_HIGH K + 1)) = ''EXTREME'')"
proof -
  have label: "getBudgetLabel K (Fin c) =
     (if c = - 1 then ''UNLIMITED''
      else if c = 0 then ''OFF''
      else if c \<le> THINKING_BUDGET_LOW K then ''LOW''
      else if c \<le> THINKING_BUDGET_MEDIUM K then ''MEDIUM''
      else if c \<le> THINKING_BUDGET_HIGH K then ''HIGH''
      else ''EXTREME'')" for c
    using assms by (auto simp: getBudgetLabel_def num_le_def)
  show ?thesis
    by (simp only: label) auto
qed

theorem getBudgetLabel_classification_witness:
  "THINKING_BUDGET_UNLIMITED core = - 1 \<and> THINKING_BUDGET_OFF core = 0
   \<and> getBudgetLabel core (Fin (- 1)) = ''UNLIMITED''
   \<and> getBudgetLabel core (Fin 0) = ''OFF''
   \<and> getBudgetLabel core (Fin 1) = ''LOW''
   \<and> getBudgetLabel core (Fin 2048) = ''LOW''
   \<and> getBudgetLabel core (Fin 2049) = ''MEDIUM''
   \<and> getBudgetLabel core (Fin 8192) = ''MEDIUM''
   \<and> getBudgetLabel core (Fin 8193) = ''HIGH''
   \<and> getBudgetLabel core (Fin 16384) = ''HIGH''
   \<and> getBudgetLabel core (Fin 16385) = ''EXTREME''"
proof -
  have h: "THINKING_BUDGET_UNLIMITED core = - 1" "THINKING_BUDGET_OFF core = 0"
    by (simp_all add: core_def)
  have k: "THINKING_BUDGET_LOW core = 2048" "THINKING_BUDGET_MEDIUM core = 8192"
    "THINKING_BUDGET_HIGH core = 16384"
    by (simp_all add: core_def)
  show ?thesis
    using getBudgetLabel_classification [OF h, of "- 1"] getBudgetLabel_classification [OF h, of 0]
      getBudgetLabel_classification [OF h, of 1]
    by (simp add: h k)
qed

text \<open>
  C8. Whenever the read of the session budget gives nothing (no override set, or no
  configuration), \<^verbatim>\<open>/think status\<close> returns the info message with the fixed text
  \<^verbatim>\<open>Extended Thinking: Using model defaults (MEDIUM: 8192 tokens)\<close>, whatever the
  constants are, and leaves the context as it was.
\<close>

theorem think_status_absent:
  assumes "config_get ctx = None"
  shows "think_status K ctx =
     (message info ''Extended Thinking: Using model defaults (MEDIUM: 8192 tokens)'', ctx)"
  using assms by (simp add: think_status_def createMessage_def)

theorem think_status_absent_witness:
  "config_get session_start = None
   \<and> think_status (core\<lparr>DEFAULT_THINKING_MODE := 4096\<rparr>) session_start =
       (message info ''Extended Thinking: Using model defaults (MEDIUM: 8192 tokens)'', session_start)
   \<and> config_get \<lparr>config = None\<rparr> = None
   \<and> think_status core \<lparr>config = None\<rparr> =
       (message info ''Extended Thinking: Using model defaults (MEDIUM: 8192 tokens)'', \<lparr>config = None\<rparr>)"
proof -
  have a: "config_get session_start = None"
    by (simp add: session_start_def config_get_def getSessionThinkingBudget_def
        getActiveOverride_def initial_state_def)
  have b: "config_get \<lparr>config = None\<rparr> = None"
    by (simp add: config_get_def)
  from think_status_absent [OF a, of "core\<lparr>DEFAULT_THINKING_MODE := 4096\<rparr>"]
    think_status_absent [OF b, of core] a b
  show ?thesis by blast
qed

lemma config_set_absent: "config ctx = None \<Longrightarrow> config_set b ctx = ctx"
  by (simp add: config_set_def)

lemma think_action_write:
  "snd (think_action K args ctx) = ctx
   \<or> (\<exists>b. snd (think_action K args ctx) = config_set b ctx
         \<and> (b = Fin (THINKING_BUDGET_OFF K) \<or> b = Fin (DEFAULT_THINKING_MODE K)
            \<or> (\<not> isNaN b \<and> \<not> num_lt b (Fin (- 1)) \<and> \<not> num_gt b (Fin 32768))))"
  by (auto simp: think_action_def Let_def split: option.splits)

lemma budget_action_write:
  "snd (budget_action K args ctx) = ctx
   \<or> (\<exists>b. snd (budget_action K args ctx) = config_set b ctx
         \<and> (b = Fin (THINKING_BUDGET_OFF K) \<or> b = Fin (THINKING_BUDGET_UNLIMITED K)
            \<or> (\<not> isNaN b \<and> \<not> num_lt b (Fin (- 1)) \<and> \<not> num_gt b (Fin 32768))))"
  by (auto simp: budget_action_def Let_def)

lemma invoke_write:
  "snd (invoke K i ctx) = ctx
   \<or> (\<exists>b. snd (invoke K i ctx) = config_set b ctx
         \<and> (b = Fin (THINKING_BUDGET_LOW K) \<or> b = Fin (THINKING_BUDGET_MEDIUM K)
            \<or> b = Fin (THINKING_BUDGET_HIGH K) \<or> b = Fin (THINKING_BUDGET_UNLIMITED K)
            \<or> b = Fin (THINKING_BUDGET_OFF K) \<or> b = Fin (DEFAULT_THINKING_MODE K)
            \<or> (\<not> isNaN b \<and> \<not> num_lt b (Fin (- 1)) \<and> \<not> num_gt b (Fin 32768))))"
proof (cases i)
  case (Think args)
  with think_action_write [of K args ctx] show ?thesis by auto
next
  case (Budget args)
  with budget_action_write [of K args ctx] show ?thesis by auto
next
  case ThinkStatus
  then show ?thesis by (simp add: think_status_def split: option.splits)
qed (auto simp: think_on_def think_off_def think_low_def think_medium_def think_high_def
    think_unlimited_def)

lemma think_action_type:
  "message_type (fst (think_action K args ctx)) = message_type (fst (think_action K args ctx'))"
  by (simp add: think_action_def Let_def createMessage_def split: option.splits)

lemma budget_action_type:
  "message_type (fst (budget_action K args ctx)) = message_type (fst (budget_action K args ctx'))"
  by (simp add: budget_action_def Let_def createMessage_def)

lemma invoke_type:
  "message_type (fst (invoke K i ctx)) = message_type (fst (invoke K i ctx'))"
proof (cases i)
  case (Think args)
  then show ?thesis by (simp add: think_action_type [of K args ctx ctx'])
next
  case (Budget args)
  then show ?thesis by (simp add: budget_action_type [of K args ctx ctx'])
next
  case ThinkStatus
  then show ?thesis by (simp add: think_status_def createMessage_def split: option.splits)
qed (simp_all add: think_on_def think_off_def think_low_def think_medium_def think_high_def
    think_unlimited_def createMessage_def)

text \<open>
  C9. When the configuration is absent, every invocation of either command, whatever its
  argument, returns a message and leaves the context as it was; a read of the budget
  gives nothing before and after. Whether the message is error-typed does not depend on
  the context at all: the same invocation returns a message of the same type under every
  context, so an error under an absent configuration is the error input validation gives
  under any configuration.
\<close>

theorem absent_config_is_silent:
  assumes "config ctx = None"
  shows "snd (invoke K i ctx) = ctx
       \<and> config_get ctx = None
       \<and> (\<exists>mt c. fst (invoke K i ctx) = message mt c)
       \<and> (\<forall>ctx'. message_type (fst (invoke K i ctx)) = message_type (fst (invoke K i ctx')))"
proof -
  have "snd (invoke K i ctx) = ctx"
    using invoke_write [of K i ctx] assms by (auto simp: config_set_absent)
  moreover have "config_get ctx = None" using assms by (simp add: config_get_def)
  moreover have "\<exists>mt c. fst (invoke K i ctx) = message mt c"
    by (cases "fst (invoke K i ctx)") simp
  moreover have "\<forall>ctx'. message_type (fst (invoke K i ctx)) = message_type (fst (invoke K i ctx'))"
    using invoke_type [of K i ctx] by simp
  ultimately show ?thesis by simp
qed

theorem absent_config_is_silent_witness:
  "config \<lparr>config = None\<rparr> = None
   \<and> snd (invoke core (Budget ''4096'') \<lparr>config = None\<rparr>) = \<lparr>config = None\<rparr>
   \<and> snd (invoke core (Think ''99999'') \<lparr>config = None\<rparr>) = \<lparr>config = None\<rparr>
   \<and> message_type (fst (invoke core (Budget ''4096'') \<lparr>config = None\<rparr>)) = info
   \<and> message_type (fst (invoke core (Think ''99999'') \<lparr>config = None\<rparr>)) = error"
proof -
  have a: "config \<lparr>config = None\<rparr> = None" by simp
  have b: "message_type (fst (budget_action core ''4096'' ctx)) = info" for ctx
    using budget_action_numeric [of 4096 core ctx] by (simp add: dec_int_4096 createMessage_def)
  have c: "message_type (fst (think_action core ''99999'' ctx)) = error" for ctx
    using think_action_numeric [of 99999 core ctx] by (simp add: dec_int_99999 createMessage_def)
  from absent_config_is_silent [OF a, of core "Budget ''4096''"]
    absent_config_is_silent [OF a, of core "Think ''99999''"]
  show ?thesis by (simp add: b c)
qed

lemma think_action_not_numeric:
  assumes "toLowerCase (trim args) \<noteq> []"
    and "isNaN (parseInt (toLowerCase (trim args)))
         \<or> toLowerCase (trim args) \<noteq> number_toString (parseInt (toLowerCase (trim args)))"
  shows "think_action K args ctx = (message error think_usage, ctx)"
  using assms by (auto simp: think_action_def Let_def createMessage_def)

lemma think_action_numeric_branch:
  assumes "\<not> isNaN (parseInt (toLowerCase (trim args)))"
    and "toLowerCase (trim args) = number_toString (parseInt (toLowerCase (trim args)))"
  shows "think_action K args ctx \<noteq> (message error think_usage, ctx)"
proof -
  have "under_range_message \<noteq> think_usage" "upper_bound_message \<noteq> think_usage"
    by (simp_all add: under_range_message_def upper_bound_message_def think_usage_def)
  with assms show ?thesis
    by (simp add: think_action_def Let_def createMessage_def)
qed

lemma parseInt_not_NaN_not_empty: "\<not> isNaN (parseInt s) \<Longrightarrow> s \<noteq> []"
  by (auto simp: parseInt_def)

lemma dec_int_7: "dec_int 7 = ''7''"
  by (simp add: dec_int_def dec_nat.simps digit_char_def)

lemma dec_int_5: "dec_int 5 = ''5''"
  by (simp add: dec_int_def dec_nat.simps digit_char_def)

lemma arg_007: "toLowerCase (trim ''007'') = ''007''"
  by (simp add: toLowerCase_def trim_def lower_char_def is_white_space_def)

lemma arg_plus5: "toLowerCase (trim ''+5'') = ''+5''"
  by (simp add: toLowerCase_def trim_def lower_char_def is_white_space_def)

lemma arg_5dot0: "toLowerCase (trim ''5.0'') = ''5.0''"
  by (simp add: toLowerCase_def trim_def lower_char_def is_white_space_def)

lemma parseInt_007: "parseInt ''007'' = Fin 7"
  by (simp add: parseInt_def is_white_space_def is_digit_def digits_value_def digit_value_def
      toNumber_safe)

lemma parseInt_plus5: "parseInt ''+5'' = Fin 5"
  by (simp add: parseInt_def is_white_space_def is_digit_def digits_value_def digit_value_def
      toNumber_safe)

lemma parseInt_5dot0: "parseInt ''5.0'' = Fin 5"
  by (simp add: parseInt_def is_white_space_def is_digit_def digits_value_def digit_value_def
      toNumber_safe)

text \<open>
  C10. Let \<open>t\<close> be the trimmed, lower-cased argument of the default action of
  \<^verbatim>\<open>/think\<close>. When \<open>t\<close> parses to a number but is not the string of that number, the
  action returns the usage error and leaves the context as it was. For a non-empty \<open>t\<close>
  the usage error is returned exactly when \<open>t\<close> does not parse or is not the string of
  its parsed number, so only the canonical form is treated as numeric. The string of a
  parsed integer of magnitude below \<open>2 ^ 53\<close> is its decimal numeral.
\<close>

theorem think_numeric_only_canonical:
  shows "(\<not> isNaN (parseInt (toLowerCase (trim args)))
          \<and> toLowerCase (trim args) \<noteq> number_toString (parseInt (toLowerCase (trim args)))
          \<longrightarrow> think_action K args ctx = (message error think_usage, ctx))
       \<and> (toLowerCase (trim args) \<noteq> [] \<longrightarrow>
            (think_action K args ctx = (message error think_usage, ctx))
            = (isNaN (parseInt (toLowerCase (trim args)))
               \<or> toLowerCase (trim args) \<noteq> number_toString (parseInt (toLowerCase (trim args)))))
       \<and> (\<bar>n\<bar> < 9007199254740992 \<longrightarrow> number_toString (Fin n) = dec_int n)"
  using think_action_not_numeric [of args K ctx] think_action_numeric_branch [of args K ctx]
    parseInt_not_NaN_not_empty [of "toLowerCase (trim args)"] number_toString_safe [of n]
  by blast

theorem think_numeric_only_canonical_witness:
  "think_action core ''007'' session_start = (message error think_usage, session_start)
   \<and> think_action core ''+5'' session_start = (message error think_usage, session_start)
   \<and> think_action core ''5.0'' session_start = (message error think_usage, session_start)
   \<and> parseInt ''007'' = Fin 7 \<and> parseInt ''+5'' = Fin 5 \<and> parseInt ''5.0'' = Fin 5
   \<and> number_toString (Fin 7) = ''7'' \<and> number_toString (Fin 5) = ''5''"
proof -
  have s: "number_toString (Fin 7) = ''7''" "number_toString (Fin 5) = ''5''"
    using number_toString_safe [of 7] number_toString_safe [of 5]
    by (simp_all add: dec_int_7 dec_int_5)
  have a: "think_action core ''007'' session_start = (message error think_usage, session_start)"
    by (rule think_numeric_only_canonical [THEN conjunct1, THEN mp])
      (simp add: arg_007 parseInt_007 s)
  have b: "think_action core ''+5'' session_start = (message error think_usage, session_start)"
    by (rule think_numeric_only_canonical [THEN conjunct1, THEN mp])
      (simp add: arg_plus5 parseInt_plus5 s)
  have c: "think_action core ''5.0'' session_start = (message error think_usage, session_start)"
    by (rule think_numeric_only_canonical [THEN conjunct1, THEN mp])
      (simp add: arg_5dot0 parseInt_5dot0 s)
  from a b c s parseInt_007 parseInt_plus5 parseInt_5dot0 show ?thesis by blast
qed

lemma in_range_valid:
  "\<not> isNaN b \<Longrightarrow> \<not> num_lt b (Fin (- 1)) \<Longrightarrow> \<not> num_gt b (Fin 32768) \<Longrightarrow> valid_budget (Some b)"
  by (cases b) (auto simp: num_gt_def)

lemma config_get_config_set:
  "config_get (config_set b ctx) = (if config ctx = None then None else Some b)"
proof (cases "config ctx = None")
  case True
  then show ?thesis by (simp add: config_set_absent config_get_def)
next
  case False
  then show ?thesis by (simp add: config_get_set)
qed

lemma invoke_preserves_valid:
  assumes "THINKING_BUDGET_UNLIMITED K = - 1" and "THINKING_BUDGET_OFF K = 0"
    and "0 < THINKING_BUDGET_LOW K" and "THINKING_BUDGET_LOW K \<le> 32768"
    and "0 < THINKING_BUDGET_MEDIUM K" and "THINKING_BUDGET_MEDIUM K \<le> 32768"
    and "0 < THINKING_BUDGET_HIGH K" and "THINKING_BUDGET_HIGH K \<le> 32768"
    and "0 < DEFAULT_THINKING_MODE K" and "DEFAULT_THINKING_MODE K \<le> 32768"
    and "valid_budget (config_get ctx)"
  shows "valid_budget (config_get (snd (invoke K i ctx)))"
proof -
  from invoke_write [of K i ctx] show ?thesis
  proof
    assume "snd (invoke K i ctx) = ctx"
    with assms(11) show ?thesis by simp
  next
    assume "\<exists>b. snd (invoke K i ctx) = config_set b ctx
         \<and> (b = Fin (THINKING_BUDGET_LOW K) \<or> b = Fin (THINKING_BUDGET_MEDIUM K)
            \<or> b = Fin (THINKING_BUDGET_HIGH K) \<or> b = Fin (THINKING_BUDGET_UNLIMITED K)
            \<or> b = Fin (THINKING_BUDGET_OFF K) \<or> b = Fin (DEFAULT_THINKING_MODE K)
            \<or> (\<not> isNaN b \<and> \<not> num_lt b (Fin (- 1)) \<and> \<not> num_gt b (Fin 32768)))"
    then obtain b where w: "snd (invoke K i ctx) = config_set b ctx"
      and b: "b = Fin (THINKING_BUDGET_LOW K) \<or> b = Fin (THINKING_BUDGET_MEDIUM K)
            \<or> b = Fin (THINKING_BUDGET_HIGH K) \<or> b = Fin (THINKING_BUDGET_UNLIMITED K)
            \<or> b = Fin (THINKING_BUDGET_OFF K) \<or> b = Fin (DEFAULT_THINKING_MODE K)
            \<or> (\<not> isNaN b \<and> \<not> num_lt b (Fin (- 1)) \<and> \<not> num_gt b (Fin 32768))"
      by blast
    from b assms(1-10) have "valid_budget (Some b)"
      by (auto simp: in_range_valid)
    then show ?thesis by (simp add: w config_get_config_set)
  qed
qed

lemma run_preserves_valid:
  assumes "THINKING_BUDGET_UNLIMITED K = - 1" and "THINKING_BUDGET_OFF K = 0"
    and "0 < THINKING_BUDGET_LOW K" and "THINKING_BUDGET_LOW K \<le> 32768"
    and "0 < THINKING_BUDGET_MEDIUM K" and "THINKING_BUDGET_MEDIUM K \<le> 32768"
    and "0 < THINKING_BUDGET_HIGH K" and "THINKING_BUDGET_HIGH K \<le> 32768"
    and "0 < DEFAULT_THINKING_MODE K" and "DEFAULT_THINKING_MODE K \<le> 32768"
  shows "valid_budget (config_get ctx) \<Longrightarrow> valid_budget (config_get (run K invs ctx))"
proof (induction invs arbitrary: ctx)
  case Nil
  then show ?case by simp
next
  case (Cons i invs)
  from invoke_preserves_valid [OF assms Cons.prems]
  have "valid_budget (config_get (snd (invoke K i ctx)))" .
  then show ?case by (simp add: Cons.IH)
qed

lemma session_start_absent: "config_get session_start = None"
  by (simp add: session_start_def config_get_def getSessionThinkingBudget_def
      getActiveOverride_def initial_state_def)

text \<open>
  C6. Let the constants be as the spec has them: -1 for "unlimited", 0 for "off", and
  the three tiers and the default positive and at most 32768. Starting from a session
  with no override, after any finite sequence of invocations of \<^verbatim>\<open>/think\<close> (any
  subcommand, or the default action with any argument) and \<^verbatim>\<open>/budget\<close> (with any
  argument), the stored session budget is absent, -1, 0, or a positive integer up to
  32768. The cell itself checks nothing: it hands back whatever was last stored.
\<close>

theorem stored_budget_invariant:
  assumes "THINKING_BUDGET_UNLIMITED K = - 1" and "THINKING_BUDGET_OFF K = 0"
    and "0 < THINKING_BUDGET_LOW K" and "THINKING_BUDGET_LOW K \<le> 32768"
    and "0 < THINKING_BUDGET_MEDIUM K" and "THINKING_BUDGET_MEDIUM K \<le> 32768"
    and "0 < THINKING_BUDGET_HIGH K" and "THINKING_BUDGET_HIGH K \<le> 32768"
    and "0 < DEFAULT_THINKING_MODE K" and "DEFAULT_THINKING_MODE K \<le> 32768"
  shows "valid_budget (config_get (run K invs session_start))
       \<and> (\<forall>b st. getActiveOverride (setOverride b st) = b)"
proof -
  have "valid_budget (config_get session_start)" by (simp add: session_start_absent)
  from run_preserves_valid [OF assms this]
  show ?thesis by (simp add: getActiveOverride_def setOverride_def)
qed

theorem stored_budget_invariant_witness:
  "THINKING_BUDGET_UNLIMITED core = - 1 \<and> THINKING_BUDGET_OFF core = 0
   \<and> 0 < THINKING_BUDGET_LOW core \<and> THINKING_BUDGET_LOW core \<le> 32768
   \<and> 0 < THINKING_BUDGET_MEDIUM core \<and> THINKING_BUDGET_MEDIUM core \<le> 32768
   \<and> 0 < THINKING_BUDGET_HIGH core \<and> THINKING_BUDGET_HIGH core \<le> 32768
   \<and> 0 < DEFAULT_THINKING_MODE core \<and> DEFAULT_THINKING_MODE core \<le> 32768
   \<and> valid_budget (config_get (run core [ThinkHigh, Budget ''12abc'', Think ''99999'', Think []] session_start))
   \<and> getActiveOverride (setOverride (Some (Fin 99999)) initial_state) = Some (Fin 99999)"
proof -
  have k: "THINKING_BUDGET_UNLIMITED core = - 1" "THINKING_BUDGET_OFF core = 0"
    "0 < THINKING_BUDGET_LOW core" "THINKING_BUDGET_LOW core \<le> 32768"
    "0 < THINKING_BUDGET_MEDIUM core" "THINKING_BUDGET_MEDIUM core \<le> 32768"
    "0 < THINKING_BUDGET_HIGH core" "THINKING_BUDGET_HIGH core \<le> 32768"
    "0 < DEFAULT_THINKING_MODE core" "DEFAULT_THINKING_MODE core \<le> 32768"
    by (simp_all add: core_def)
  from stored_budget_invariant [OF k,
      of "[ThinkHigh, Budget ''12abc'', Think ''99999'', Think []]"] k
  show ?thesis by blast
qed

end
